theory Spec2Isabelle
  imports Main "HOL-Library.Word" "HOL-Library.Signed_Division"
begin

section \<open>BitTube: a record-preserving channel over a socket pair\<close>

text \<open>
  The embedding follows \<^verbatim>\<open>libs/gui/BitTube.cpp\<close>. The operating system is not part
  of the repository, so every system call the code makes is a field of the record
  \<open>os\<close> below: a function from the kernel state (of an arbitrary type \<open>'k\<close>) to the
  call's raw result and the next kernel state. A raw result is the pair of the
  call's return value and the value of \<^verbatim>\<open>errno\<close> after the call. The code is
  written against these fields exactly where the source makes the call.

  \<^verbatim>\<open>size_t\<close> is a word of an arbitrary width \<open>'w\<close> (32 or 64 on the targets; the
  record \<open>os\<close> leaves the type open as \<open>'s\<close>, and the code uses it at \<open>'w word\<close>);
  \<^verbatim>\<open>ssize_t\<close>, \<^verbatim>\<open>int\<close> and \<^verbatim>\<open>status_t\<close> values are integers, and the one place where
  an unsigned value is reinterpreted, \<^verbatim>\<open>static_cast<ssize_t>(objSize)\<close>, is \<open>sint\<close>.
\<close>

subsection \<open>Constants of the system headers\<close>

type_synonym byte = "8 word"

text \<open>Error numbers of \<^verbatim>\<open>errno.h\<close> (Linux, bionic). \<^verbatim>\<open>EWOULDBLOCK\<close> is \<^verbatim>\<open>EAGAIN\<close> there.\<close>

definition EINTR :: int where "EINTR = 4"
definition EBADF :: int where "EBADF = 9"
definition EAGAIN :: int where "EAGAIN = 11"
definition EWOULDBLOCK :: int where "EWOULDBLOCK = EAGAIN"
definition EINVAL :: int where "EINVAL = 22"

text \<open>\<^verbatim>\<open>utils/Errors.h\<close>: \<^verbatim>\<open>OK = 0, NO_ERROR = 0\<close>.\<close>

definition NO_ERROR :: int where "NO_ERROR = 0"

datatype sockopt = SO_RCVBUF | SO_SNDBUF

subsection \<open>The system calls the code makes\<close>

record ('s, 'k) os =
  sys_socketpair :: "'k \<Rightarrow> (int \<times> int \<times> int \<times> int) \<times> 'k"
    \<comment> \<open>\<^verbatim>\<open>socketpair(AF_UNIX, SOCK_SEQPACKET, 0, sockets)\<close>: return value, errno,
        \<^verbatim>\<open>sockets[0]\<close>, \<^verbatim>\<open>sockets[1]\<close>\<close>
  sys_setsockopt :: "int \<Rightarrow> sockopt \<Rightarrow> 's \<Rightarrow> 'k \<Rightarrow> 'k"
    \<comment> \<open>\<^verbatim>\<open>setsockopt(fd, SOL_SOCKET, opt, &value, sizeof(value))\<close>, result ignored\<close>
  sys_fcntl_nonblock :: "int \<Rightarrow> 'k \<Rightarrow> 'k"
    \<comment> \<open>\<^verbatim>\<open>fcntl(fd, F_SETFL, O_NONBLOCK)\<close>, result ignored\<close>
  sys_property_debuggable :: "'k \<Rightarrow> bool"
    \<comment> \<open>\<^verbatim>\<open>property_get("ro.debuggable", value, "")\<close> gave \<^verbatim>\<open>"1"\<close>\<close>
  sys_bind_name :: "int \<Rightarrow> 'k \<Rightarrow> 'k"
    \<comment> \<open>the reads of \<^verbatim>\<open>/proc/<id>/comm\<close> and the \<^verbatim>\<open>bind\<close> of the derived name\<close>
  sys_dup :: "int \<Rightarrow> 'k \<Rightarrow> (int \<times> int) \<times> 'k"
    \<comment> \<open>\<^verbatim>\<open>dup(fd)\<close>: return value, errno\<close>
  sys_close :: "int \<Rightarrow> 'k \<Rightarrow> 'k"
    \<comment> \<open>\<^verbatim>\<open>close(fd)\<close>, result ignored\<close>
  sys_send :: "int \<Rightarrow> byte list \<Rightarrow> 's \<Rightarrow> 'k \<Rightarrow> (int \<times> int) \<times> 'k"
    \<comment> \<open>\<^verbatim>\<open>send(fd, vaddr, size, MSG_DONTWAIT | MSG_NOSIGNAL)\<close>: return value, errno\<close>
  sys_recv :: "int \<Rightarrow> byte list \<Rightarrow> 's \<Rightarrow> 'k \<Rightarrow> ((int \<times> int) \<times> byte list) \<times> 'k"
    \<comment> \<open>\<^verbatim>\<open>recv(fd, vaddr, size, MSG_DONTWAIT)\<close>: return value, errno, and the
        contents of the caller's buffer at \<^verbatim>\<open>vaddr\<close> after the call\<close>

subsection \<open>The channel object\<close>

record BitTube =
  mSendFd :: int
  mReceiveFd :: int

definition DEFAULT_SOCKET_BUFFER_SIZE :: "'w::len word" where
  "DEFAULT_SOCKET_BUFFER_SIZE = 4 * 1024"

text \<open>
  \<^verbatim>\<open>BitTube::setSocketName\<close>: a name is bound to each socket that is a descriptor.
  The name itself (process and thread names read from \<^verbatim>\<open>/proc\<close>) is diagnostic data
  inside \<open>sys_bind_name\<close>.
\<close>

definition setSocketName :: "('w::len word, 'k) os \<Rightarrow> int \<Rightarrow> int \<Rightarrow> 'k \<Rightarrow> 'k" where
  "setSocketName os socket0 socket1 k =
     (let k1 = (if socket0 \<ge> 0 then sys_bind_name os socket0 k else k)
      in (if socket1 \<ge> 0 then sys_bind_name os socket1 k1 else k1))"

text \<open>\<^verbatim>\<open>BitTube::init(rcvbuf, sndbuf)\<close>, on the object \<open>t\<close>.\<close>

definition init :: "('w::len word, 'k) os \<Rightarrow> 'w word \<Rightarrow> 'w word \<Rightarrow> BitTube \<Rightarrow> 'k \<Rightarrow> BitTube \<times> 'k" where
  "init os rcvbuf sndbuf t k =
     (case sys_socketpair os k of
        ((ret, eno, sockets0, sockets1), k0) \<Rightarrow>
          if ret = 0 then
            (let size' = DEFAULT_SOCKET_BUFFER_SIZE;
                 k1 = sys_setsockopt os sockets0 SO_RCVBUF rcvbuf k0;
                 k2 = sys_setsockopt os sockets1 SO_SNDBUF sndbuf k1;
                 k3 = sys_setsockopt os sockets0 SO_SNDBUF size' k2;
                 k4 = sys_setsockopt os sockets1 SO_RCVBUF size' k3;
                 k5 = sys_fcntl_nonblock os sockets0 k4;
                 k6 = sys_fcntl_nonblock os sockets1 k5;
                 t' = t\<lparr>mReceiveFd := sockets0, mSendFd := sockets1\<rparr>
             in (t', if sys_property_debuggable os k6
                     then setSocketName os sockets0 sockets1 k6 else k6))
          else (t\<lparr>mReceiveFd := - eno\<rparr>, k0))"

text \<open>The constructors \<^verbatim>\<open>BitTube()\<close> and \<^verbatim>\<open>BitTube(size_t bufsize)\<close>.\<close>

definition BitTube_default :: "('w::len word, 'k) os \<Rightarrow> 'k \<Rightarrow> BitTube \<times> 'k" where
  "BitTube_default os k =
     init os DEFAULT_SOCKET_BUFFER_SIZE DEFAULT_SOCKET_BUFFER_SIZE
       \<lparr>mSendFd = - 1, mReceiveFd = - 1\<rparr> k"

definition BitTube_bufsize :: "('w::len word, 'k) os \<Rightarrow> 'w word \<Rightarrow> 'k \<Rightarrow> BitTube \<times> 'k" where
  "BitTube_bufsize os bufsize k =
     init os bufsize bufsize \<lparr>mSendFd = - 1, mReceiveFd = - 1\<rparr> k"

text \<open>
  The constructor \<^verbatim>\<open>BitTube(const Parcel& data)\<close>. \<^verbatim>\<open>Parcel\<close> is not among the
  sources: its \<^verbatim>\<open>readFileDescriptor\<close> is the parameter \<open>readFileDescriptor\<close>, applied
  to the parcel \<open>data\<close>.
\<close>

definition BitTube_Parcel ::
  "('w::len word, 'k) os \<Rightarrow> ('p \<Rightarrow> int) \<Rightarrow> 'p \<Rightarrow> 'k \<Rightarrow> BitTube \<times> 'k" where
  "BitTube_Parcel os readFileDescriptor data k =
     (case sys_dup os (readFileDescriptor data) k of
        ((fd, eno), k') \<Rightarrow>
          (\<lparr>mSendFd = - 1, mReceiveFd = (if fd < 0 then - eno else fd)\<rparr>, k'))"

text \<open>The destructor \<^verbatim>\<open>~BitTube()\<close>.\<close>

definition BitTube_destroy :: "('w::len word, 'k) os \<Rightarrow> BitTube \<Rightarrow> 'k \<Rightarrow> 'k" where
  "BitTube_destroy os t k =
     (let k1 = (if mSendFd t \<ge> 0 then sys_close os (mSendFd t) k else k)
      in (if mReceiveFd t \<ge> 0 then sys_close os (mReceiveFd t) k1 else k1))"

definition initCheck :: "BitTube \<Rightarrow> int" where
  "initCheck t = (if mReceiveFd t < 0 then mReceiveFd t else NO_ERROR)"

definition getFd :: "BitTube \<Rightarrow> int" where
  "getFd t = mReceiveFd t"

definition getSendFd :: "BitTube \<Rightarrow> int" where
  "getSendFd t = mSendFd t"

text \<open>
  \<^verbatim>\<open>BitTube::write\<close> and \<^verbatim>\<open>BitTube::read\<close>. The \<^verbatim>\<open>do ... while (err == EINTR)\<close> loop
  has no bound: a kernel that interrupts every attempt keeps it running, and then
  the value is \<open>None\<close>. \<open>BitTube_read\<close> also returns what the buffer holds afterwards.
\<close>

partial_function (option) BitTube_write ::
  "('w::len word, 'k) os \<Rightarrow> BitTube \<Rightarrow> byte list \<Rightarrow> 'w word \<Rightarrow> 'k \<Rightarrow> (int \<times> 'k) option" where
  "BitTube_write os t vaddr size' k =
     (case sys_send os (mSendFd t) vaddr size' k of
        ((len, eno), k') \<Rightarrow>
          (let err = (if len < 0 then eno else 0)
           in if err = EINTR then BitTube_write os t vaddr size' k'
              else Some (if err = 0 then len else - err, k')))"

partial_function (option) BitTube_read ::
  "('w::len word, 'k) os \<Rightarrow> BitTube \<Rightarrow> byte list \<Rightarrow> 'w word \<Rightarrow> 'k
     \<Rightarrow> (int \<times> byte list \<times> 'k) option" where
  "BitTube_read os t vaddr size' k =
     (case sys_recv os (mReceiveFd t) vaddr size' k of
        (((len, eno), vaddr'), k') \<Rightarrow>
          (let err = (if len < 0 then eno else 0)
           in if err = EINTR then BitTube_read os t vaddr' size' k'
              else if err = EAGAIN \<or> err = EWOULDBLOCK then Some (0, vaddr', k')
              else Some (if err = 0 then len else - err, vaddr', k')))"

text \<open>
  \<^verbatim>\<open>BitTube::writeToParcel\<close>. \<^verbatim>\<open>Parcel::writeDupFileDescriptor\<close> is not among the
  sources: it is the parameter \<open>writeDupFileDescriptor\<close>, which takes the descriptor,
  the parcel and the kernel state and gives its status, the parcel and the kernel
  state afterwards. The result is the status, the object (whose \<^verbatim>\<open>mReceiveFd\<close> the
  method overwrites), the parcel and the kernel state.
\<close>

definition writeToParcel ::
  "('w::len word, 'k) os \<Rightarrow> (int \<Rightarrow> 'p \<Rightarrow> 'k \<Rightarrow> int \<times> 'p \<times> 'k) \<Rightarrow> BitTube \<Rightarrow> 'p \<Rightarrow> 'k
     \<Rightarrow> int \<times> BitTube \<times> 'p \<times> 'k" where
  "writeToParcel os writeDupFileDescriptor t reply k =
     (if mReceiveFd t < 0 then (- EINVAL, t, reply, k)
      else (case writeDupFileDescriptor (mReceiveFd t) reply k of
              (result, reply', k') \<Rightarrow>
                (result, t\<lparr>mReceiveFd := - 1\<rparr>, reply', sys_close os (mReceiveFd t) k')))"

subsection \<open>The batch helpers\<close>

text \<open>
  What a call of a helper ends in: it returns a value, it takes
  \<^verbatim>\<open>LOG_ALWAYS_FATAL\<close> (the process aborts), or it evaluates \<^verbatim>\<open>size % 0\<close>, which C++
  leaves undefined.
\<close>

datatype 'a outcome = Returned 'a | Fatal | DivisionByZero

text \<open>
  \<^verbatim>\<open>BitTube::sendObjects\<close> and \<^verbatim>\<open>BitTube::recvObjects\<close>. \<^verbatim>\<open>count*objSize\<close> is a
  product of \<^verbatim>\<open>size_t\<close> values and wraps. \<^verbatim>\<open>%\<close> and \<^verbatim>\<open>/\<close> on \<^verbatim>\<open>ssize_t\<close> truncate
  towards zero (\<open>smod\<close>, \<open>sdiv\<close>). \<^verbatim>\<open>&&\<close> evaluates the remainder only when
  \<^verbatim>\<open>size >= 0\<close>.
\<close>

definition sendObjects ::
  "('w::len word, 'k) os \<Rightarrow> BitTube \<Rightarrow> byte list \<Rightarrow> 'w word \<Rightarrow> 'w word \<Rightarrow> 'k
     \<Rightarrow> (int outcome \<times> 'k) option" where
  "sendObjects os tube events count objSize k =
     (case BitTube_write os tube events (count * objSize) k of
        None \<Rightarrow> None
      | Some (size', k') \<Rightarrow>
          Some (if size' \<ge> 0 \<and> sint objSize = 0 then DivisionByZero
                else if size' \<ge> 0 \<and> size' smod sint objSize \<noteq> 0 then Fatal
                else Returned (if size' < 0 then size' else size' sdiv sint objSize), k'))"

definition recvObjects ::
  "('w::len word, 'k) os \<Rightarrow> BitTube \<Rightarrow> byte list \<Rightarrow> 'w word \<Rightarrow> 'w word \<Rightarrow> 'k
     \<Rightarrow> (int outcome \<times> byte list \<times> 'k) option" where
  "recvObjects os tube events count objSize k =
     (case BitTube_read os tube events (count * objSize) k of
        None \<Rightarrow> None
      | Some (size', events', k') \<Rightarrow>
          Some (if size' \<ge> 0 \<and> sint objSize = 0 then DivisionByZero
                else if size' \<ge> 0 \<and> size' smod sint objSize \<noteq> 0 then Fatal
                else Returned (if size' < 0 then size' else size' sdiv sint objSize),
                events', k'))"

subsection \<open>Interrupted attempts\<close>

text \<open>
  The two loops repeat a system call while it is interrupted. \<open>settles call n s\<close>
  describes the kernel's side of such a run from the state \<open>s\<close>: the first \<open>n\<close>
  attempts are interrupted (negative return value, errno \<^verbatim>\<open>EINTR\<close>), the next one is
  not, and its raw result and state are the value. \<open>send_call\<close> and \<open>recv_call\<close> are
  the attempts of \<open>BitTube_write\<close> and \<open>BitTube_read\<close>; a receive attempt passes the
  buffer on with the kernel state.
\<close>

fun settles :: "('s \<Rightarrow> (int \<times> int) \<times> 's) \<Rightarrow> nat \<Rightarrow> 's \<Rightarrow> ((int \<times> int) \<times> 's) option" where
  "settles call 0 s =
     (case call s of
        ((len, eno), s') \<Rightarrow> if len < 0 \<and> eno = EINTR then None else Some ((len, eno), s'))"
| "settles call (Suc n) s =
     (case call s of
        ((len, eno), s') \<Rightarrow> if len < 0 \<and> eno = EINTR then settles call n s' else None)"

definition send_call ::
  "('w::len word, 'k) os \<Rightarrow> BitTube \<Rightarrow> byte list \<Rightarrow> 'w word \<Rightarrow> 'k \<Rightarrow> (int \<times> int) \<times> 'k" where
  "send_call os t vaddr size' k = sys_send os (mSendFd t) vaddr size' k"

definition recv_call ::
  "('w::len word, 'k) os \<Rightarrow> BitTube \<Rightarrow> 'w word \<Rightarrow> byte list \<times> 'k
     \<Rightarrow> (int \<times> int) \<times> (byte list \<times> 'k)" where
  "recv_call os t size' s =
     (case sys_recv os (mReceiveFd t) (fst s) size' (snd s) of
        ((r, vaddr'), k') \<Rightarrow> (r, (vaddr', k')))"

subsection \<open>The transport's contract\<close>

text \<open>
  What the code relies on from a connected \<^verbatim>\<open>SOCK_SEQPACKET\<close> pair, as a property of
  the system calls on the two descriptors. \<open>inflight k\<close> is the queue of the messages
  sent on \<open>sendFd\<close> and not yet received on \<open>receiveFd\<close>, oldest first, or \<open>None\<close> when
  the pair is not open in the state \<open>k\<close>. A send that succeeds has taken the whole
  message and queued it; a send that fails has queued nothing. With a message
  pending, a receive is interrupted and changes nothing, or it takes the oldest
  message, cut to the size of the buffer, into the start of the buffer.
\<close>

definition seqpacket_pair ::
  "('w::len word, 'k) os \<Rightarrow> int \<Rightarrow> int \<Rightarrow> ('k \<Rightarrow> byte list list option) \<Rightarrow> bool" where
  "seqpacket_pair os sendFd receiveFd inflight \<longleftrightarrow>
     (\<forall>k q vaddr sz len eno k'.
        inflight k = Some q \<and> sys_send os sendFd vaddr sz k = ((len, eno), k') \<longrightarrow>
          (if 0 \<le> len
           then len = uint sz \<and> inflight k' = Some (q @ [take (unat sz) vaddr])
           else inflight k' = Some q))
   \<and> (\<forall>k m q vaddr sz len eno vaddr' k'.
        inflight k = Some (m # q)
          \<and> sys_recv os receiveFd vaddr sz k = (((len, eno), vaddr'), k') \<longrightarrow>
          (if len < 0 \<and> eno = EINTR
           then vaddr' = vaddr \<and> inflight k' = Some (m # q)
           else len = int (min (length m) (unat sz))
              \<and> vaddr' = take (min (length m) (unat sz)) m
                          @ drop (min (length m) (unat sz)) vaddr
              \<and> inflight k' = Some q))"

subsection \<open>A reference transport\<close>

text \<open>
  A small kernel with one socket pair, for concrete runs of the code: a descriptor
  table, the queue of whole messages in flight from the send end to the receive
  end, the byte capacity of that queue (set by \<^verbatim>\<open>SO_SNDBUF\<close> on the send end), and the
  number of signals that will each interrupt one transfer. It follows what POSIX
  says of a \<^verbatim>\<open>SOCK_SEQPACKET\<close> pair in non-blocking mode: a message is queued whole or
  not at all, a receive takes the oldest message and cuts it to the buffer's size,
  an empty queue gives \<^verbatim>\<open>EAGAIN\<close> while a send descriptor is open and 0 (end of
  file) once the peer is closed, and a number that is no descriptor gives \<^verbatim>\<open>EBADF\<close>.
\<close>

datatype endpoint = ReceiveEnd | SendEnd

record kernel =
  table :: "(int \<times> endpoint) list"
  next_fd :: int
  max_fd :: int
  queue :: "byte list list"
  capacity :: nat
  signals :: nat

definition EMFILE :: int where "EMFILE = 24"
definition EPIPE :: int where "EPIPE = 32"

definition k_socketpair :: "kernel \<Rightarrow> (int \<times> int \<times> int \<times> int) \<times> kernel" where
  "k_socketpair k =
     (if next_fd k + 1 > max_fd k then ((- 1, EMFILE, 0, 0), k)
      else ((0, 0, next_fd k, next_fd k + 1),
            k\<lparr>table := (next_fd k, ReceiveEnd) # (next_fd k + 1, SendEnd) # table k,
              next_fd := next_fd k + 2\<rparr>))"

definition k_setsockopt :: "int \<Rightarrow> sockopt \<Rightarrow> 'w::len word \<Rightarrow> kernel \<Rightarrow> kernel" where
  "k_setsockopt fd opt v k =
     (if map_of (table k) fd = Some SendEnd \<and> opt = SO_SNDBUF
      then k\<lparr>capacity := unat v\<rparr> else k)"

definition k_dup :: "int \<Rightarrow> kernel \<Rightarrow> (int \<times> int) \<times> kernel" where
  "k_dup fd k =
     (case map_of (table k) fd of
        None \<Rightarrow> ((- 1, EBADF), k)
      | Some e \<Rightarrow>
          if next_fd k > max_fd k then ((- 1, EMFILE), k)
          else ((next_fd k, 0),
                k\<lparr>table := (next_fd k, e) # table k, next_fd := next_fd k + 1\<rparr>))"

definition k_close :: "int \<Rightarrow> kernel \<Rightarrow> kernel" where
  "k_close fd k = k\<lparr>table := filter (\<lambda>p. fst p \<noteq> fd) (table k)\<rparr>"

definition k_send :: "int \<Rightarrow> byte list \<Rightarrow> 'w::len word \<Rightarrow> kernel \<Rightarrow> (int \<times> int) \<times> kernel" where
  "k_send fd vaddr size' k =
     (if map_of (table k) fd \<noteq> Some SendEnd then ((- 1, EBADF), k)
      else if signals k > 0 then ((- 1, EINTR), k\<lparr>signals := signals k - 1\<rparr>)
      else if ReceiveEnd \<notin> snd ` set (table k) then ((- 1, EPIPE), k)
      else if sum_list (map length (queue k)) + unat size' > capacity k
        then ((- 1, EAGAIN), k)
      else ((int (unat size'), 0), k\<lparr>queue := queue k @ [take (unat size') vaddr]\<rparr>))"

definition k_recv ::
  "int \<Rightarrow> byte list \<Rightarrow> 'w::len word \<Rightarrow> kernel \<Rightarrow> ((int \<times> int) \<times> byte list) \<times> kernel" where
  "k_recv fd vaddr size' k =
     (if map_of (table k) fd \<noteq> Some ReceiveEnd then (((- 1, EBADF), vaddr), k)
      else if signals k > 0 then (((- 1, EINTR), vaddr), k\<lparr>signals := signals k - 1\<rparr>)
      else (case queue k of
              [] \<Rightarrow> if SendEnd \<in> snd ` set (table k)
                    then (((- 1, EAGAIN), vaddr), k) else (((0, 0), vaddr), k)
            | m # ms \<Rightarrow>
                (let n = min (length m) (unat size')
                 in (((int n, 0), take n m @ drop n vaddr), k\<lparr>queue := ms\<rparr>))))"

definition ref_os :: "('w::len word, kernel) os" where
  "ref_os =
     \<lparr>sys_socketpair = k_socketpair,
      sys_setsockopt = k_setsockopt,
      sys_fcntl_nonblock = (\<lambda>fd k. k),
      sys_property_debuggable = (\<lambda>k. False),
      sys_bind_name = (\<lambda>fd k. k),
      sys_dup = k_dup,
      sys_close = k_close,
      sys_send = k_send,
      sys_recv = k_recv\<rparr>"

text \<open>A kernel with descriptors 0 to 2 taken and nothing else.\<close>

definition boot :: kernel where
  "boot = \<lparr>table = [], next_fd = 3, max_fd = 1023, queue = [], capacity = 0, signals = 0\<rparr>"

text \<open>
  The channel and the kernel that \<^verbatim>\<open>BitTube()\<close> leaves from \<open>boot\<close>, with the messages
  \<open>q\<close> in flight and \<open>n\<close> signals pending.
\<close>

definition pair_tube :: BitTube where
  "pair_tube = \<lparr>mSendFd = 4, mReceiveFd = 3\<rparr>"

definition pair_kernel :: "byte list list \<Rightarrow> nat \<Rightarrow> kernel" where
  "pair_kernel q n =
     \<lparr>table = [(3, ReceiveEnd), (4, SendEnd)], next_fd = 5, max_fd = 1023,
      queue = q, capacity = 4096, signals = n\<rparr>"

text \<open>The queue of the reference transport, while descriptors 3 and 4 are its two ends.\<close>

definition ref_inflight :: "kernel \<Rightarrow> byte list list option" where
  "ref_inflight k =
     (if map_of (table k) 3 = Some ReceiveEnd \<and> map_of (table k) 4 = Some SendEnd
      then Some (queue k) else None)"

section \<open>Input event labels\<close>





















text \<open>
  The reference parcel: the list of the descriptors written to it, with
  \<^verbatim>\<open>writeDupFileDescriptor\<close> on the reference transport (it duplicates the descriptor
  and appends the duplicate, or returns the negated errno of \<^verbatim>\<open>dup\<close>).
\<close>

definition ref_writeDupFileDescriptor ::
  "int \<Rightarrow> int list \<Rightarrow> kernel \<Rightarrow> int \<times> int list \<times> kernel" where
  "ref_writeDupFileDescriptor fd reply k =
     (case k_dup fd k of
        ((dupFd, eno), k') \<Rightarrow>
          if dupFd < 0 then (- eno, reply, k') else (NO_ERROR, reply @ [dupFd], k'))"

section \<open>Properties of the channel\<close>

subsection \<open>Arithmetic of the batch helpers\<close>

text \<open>
  On a non-negative dividend and a positive divisor the truncating operations of
  C++ agree with \<open>div\<close> and \<open>mod\<close>, and a \<^verbatim>\<open>size_t\<close> that is positive as \<^verbatim>\<open>ssize_t\<close>
  keeps its value under the cast.
\<close>

lemma smod_nonneg: "0 \<le> a \<Longrightarrow> 0 < b \<Longrightarrow> a smod b = a mod (b::int)"
  by (simp add: signed_modulo_int_def sgn_if)

lemma sdiv_nonneg: "0 \<le> a \<Longrightarrow> 0 < b \<Longrightarrow> a sdiv b = a div (b::int)"
  by (simp add: signed_divide_int_def sgn_if)

lemma sint_pos_uint:
  fixes x :: "'a::len word"
  assumes "0 < sint x"
  shows "sint x = uint x"
proof -
  have "sint x < 2 ^ (LENGTH('a) - 1)" by (rule sint_lt)
  also have "(2::int) ^ (LENGTH('a) - 1) \<le> 2 ^ LENGTH('a)"
    by (rule power_increasing) simp_all
  finally have "take_bit LENGTH('a) (sint x) = sint x"
    using assms by (simp add: take_bit_int_eq_self)
  then show ?thesis by (simp add: uint_sint)
qed

lemma uint_small_sint:
  fixes x :: "'a::len word"
  assumes "uint x < 2 ^ (LENGTH('a) - 1)"
  shows "sint x = uint x"
proof -
  have "- (2 ^ (LENGTH('a) - 1)) \<le> uint x"
    by (rule order_trans [of _ 0]) simp_all
  then show ?thesis using assms
    by (simp add: sint_uint signed_take_bit_int_eq_self)
qed

lemma sint_zero_iff: "sint (x::'a::len word) = 0 \<longleftrightarrow> x = 0"
  by (rule signed_eq_0_iff)

lemma batch_tail:
  assumes "0 < sint (objSize::'a::len word)"
  shows "(if sz \<ge> 0 \<and> sint objSize = 0 then DivisionByZero
          else if sz \<ge> 0 \<and> sz smod sint objSize \<noteq> 0 then Fatal
          else Returned (if sz < 0 then sz else sz sdiv sint objSize))
       = (if 0 \<le> sz \<and> \<not> uint objSize dvd sz then Fatal
          else Returned (if sz < 0 then sz else sz div uint objSize))"
proof (cases "0 \<le> sz")
  case True
  have u: "sint objSize = uint objSize" using assms by (rule sint_pos_uint)
  with assms have p: "0 < uint objSize" by simp
  from True p show ?thesis
    by (simp add: u smod_nonneg sdiv_nonneg dvd_eq_mod_eq_0)
next
  case False
  then show ?thesis by simp
qed

subsection \<open>The retry loops\<close>

text \<open>
  When the kernel's side of the run settles, the loop returns: the raw result of
  the attempt that is not interrupted decides the value.
\<close>

lemma write_settles:
  "settles (send_call os t vaddr sz) n k = Some ((len, eno), k') \<Longrightarrow>
   BitTube_write os t vaddr sz k = Some (if len < 0 \<and> eno \<noteq> 0 then - eno else len, k')"
proof (induction n arbitrary: k)
  case 0
  then show ?case
    by (subst BitTube_write.simps)
       (auto simp: send_call_def Let_def EINTR_def split: prod.splits if_splits)
next
  case (Suc n)
  then show ?case
    by (subst BitTube_write.simps)
       (auto simp: send_call_def Let_def EINTR_def split: prod.splits if_splits)
qed

lemma read_settles:
  "settles (recv_call os t sz) n (vaddr, k) = Some ((len, eno), (vaddr', k')) \<Longrightarrow>
   BitTube_read os t vaddr sz k =
     Some (if len < 0 \<and> (eno = EAGAIN \<or> eno = EWOULDBLOCK) then 0
           else if len < 0 \<and> eno \<noteq> 0 then - eno else len, vaddr', k')"
proof (induction n arbitrary: vaddr k)
  case 0
  then show ?case
    by (subst BitTube_read.simps)
       (auto simp: recv_call_def Let_def EAGAIN_def EWOULDBLOCK_def EINTR_def split: prod.splits if_splits)
next
  case (Suc n)
  then show ?case
    by (subst BitTube_read.simps)
       (auto simp: recv_call_def Let_def EAGAIN_def EWOULDBLOCK_def EINTR_def split: prod.splits if_splits)
qed

subsection \<open>Messages in flight\<close>

text \<open>
  Under the contract, a send that settles with a non-negative result has queued
  the whole message, and a receive that settles with a message pending has
  delivered the oldest one; interrupted attempts change neither queue nor buffer.
\<close>

lemma seqpacket_send:
  "seqpacket_pair os sendFd receiveFd inflight \<Longrightarrow> inflight k = Some q \<Longrightarrow>
   sys_send os sendFd vaddr sz k = ((len, eno), k') \<Longrightarrow>
   (if 0 \<le> len then len = uint sz \<and> inflight k' = Some (q @ [take (unat sz) vaddr])
    else inflight k' = Some q)"
  unfolding seqpacket_pair_def by blast

lemma seqpacket_recv:
  "seqpacket_pair os sendFd receiveFd inflight \<Longrightarrow> inflight k = Some (m # q) \<Longrightarrow>
   sys_recv os receiveFd vaddr sz k = (((len, eno), vaddr'), k') \<Longrightarrow>
   (if len < 0 \<and> eno = EINTR then vaddr' = vaddr \<and> inflight k' = Some (m # q)
    else len = int (min (length m) (unat sz))
       \<and> vaddr' = take (min (length m) (unat sz)) m @ drop (min (length m) (unat sz)) vaddr
       \<and> inflight k' = Some q)"
  unfolding seqpacket_pair_def by blast

lemma send_settles_inflight:
  assumes pair: "seqpacket_pair os (mSendFd tx) receiveFd inflight"
  shows "inflight k = Some q \<Longrightarrow>
         settles (send_call os tx vaddr sz) n k = Some ((len, eno), k') \<Longrightarrow>
         (if 0 \<le> len then len = uint sz \<and> inflight k' = Some (q @ [take (unat sz) vaddr])
          else inflight k' = Some q)"
proof (induction n arbitrary: k)
  case 0
  obtain l e k0 where c: "sys_send os (mSendFd tx) vaddr sz k = ((l, e), k0)"
    by (metis prod.exhaust)
  then have sc: "send_call os tx vaddr sz k = ((l, e), k0)" by (simp add: send_call_def)
  from "0.prems"(2) have "l = len \<and> e = eno \<and> k0 = k'"
    by (simp add: sc split: if_splits)
  with seqpacket_send [OF pair "0.prems"(1) c] show ?case by auto
next
  case (Suc n)
  obtain l e k0 where c: "sys_send os (mSendFd tx) vaddr sz k = ((l, e), k0)"
    by (metis prod.exhaust)
  then have sc: "send_call os tx vaddr sz k = ((l, e), k0)" by (simp add: send_call_def)
  from Suc.prems(2) have i: "l < 0 \<and> e = EINTR"
    and rest: "settles (send_call os tx vaddr sz) n k0 = Some ((len, eno), k')"
    by (simp_all add: sc split: if_splits)
  from seqpacket_send [OF pair Suc.prems(1) c] i have "inflight k0 = Some q" by auto
  from Suc.IH [OF this rest] show ?case .
qed

lemma recv_settles_inflight:
  assumes pair: "seqpacket_pair os sendFd (mReceiveFd rx) inflight"
  shows "inflight k = Some (m # q) \<Longrightarrow>
         settles (recv_call os rx sz) n (vaddr, k) = Some ((len, eno), (vaddr', k')) \<Longrightarrow>
         len = int (min (length m) (unat sz))
         \<and> vaddr' = take (min (length m) (unat sz)) m @ drop (min (length m) (unat sz)) vaddr
         \<and> inflight k' = Some q"
proof (induction n arbitrary: k)
  case 0
  obtain l e v0 k0 where c: "sys_recv os (mReceiveFd rx) vaddr sz k = (((l, e), v0), k0)"
    by (metis prod.exhaust)
  then have rc: "recv_call os rx sz (vaddr, k) = ((l, e), (v0, k0))"
    by (simp add: recv_call_def)
  from "0.prems"(2) have "l = len \<and> e = eno \<and> v0 = vaddr' \<and> k0 = k' \<and> \<not> (l < 0 \<and> e = EINTR)"
    by (simp add: rc split: if_splits)
  with seqpacket_recv [OF pair "0.prems"(1) c] show ?case by auto
next
  case (Suc n)
  obtain l e v0 k0 where c: "sys_recv os (mReceiveFd rx) vaddr sz k = (((l, e), v0), k0)"
    by (metis prod.exhaust)
  then have rc: "recv_call os rx sz (vaddr, k) = ((l, e), (v0, k0))"
    by (simp add: recv_call_def)
  from Suc.prems(2) have i: "l < 0 \<and> e = EINTR"
    and rest: "settles (recv_call os rx sz) n (v0, k0) = Some ((len, eno), (vaddr', k'))"
    by (simp_all add: rc split: if_splits)
  from seqpacket_recv [OF pair Suc.prems(1) c] i have "v0 = vaddr" "inflight k0 = Some (m # q)"
    by auto
  with Suc.IH [of k0] rest show ?case by simp
qed

subsection \<open>Runs on the reference transport\<close>

lemma default_boot:
  "BitTube_default (ref_os :: (64 word, kernel) os) boot = (pair_tube, pair_kernel [] 0)"
  by (simp add: BitTube_default_def init_def ref_os_def k_socketpair_def boot_def
      k_setsockopt_def DEFAULT_SOCKET_BUFFER_SIZE_def pair_tube_def pair_kernel_def Let_def)

lemma ref_send_settles:
  "length vaddr \<ge> unat sz \<Longrightarrow> sum_list (map length q) + unat sz \<le> 4096 \<Longrightarrow>
   settles (send_call ref_os pair_tube vaddr (sz::'w::len word)) n (pair_kernel q n)
     = Some ((int (unat sz), 0), pair_kernel (q @ [take (unat sz) vaddr]) 0)"
proof (induction n)
  case 0
  then show ?case
    by (simp add: send_call_def ref_os_def k_send_def pair_tube_def pair_kernel_def)
next
  case (Suc n)
  then show ?case
    by (simp add: send_call_def ref_os_def k_send_def pair_tube_def pair_kernel_def EINTR_def)
qed

lemma ref_recv_settles:
  "settles (recv_call ref_os pair_tube (sz::'w::len word)) n (vaddr, pair_kernel (m # q) n)
     = Some ((int (min (length m) (unat sz)), 0),
             (take (min (length m) (unat sz)) m @ drop (min (length m) (unat sz)) vaddr,
              pair_kernel q 0))"
proof (induction n)
  case 0
  then show ?case
    by (simp add: recv_call_def ref_os_def k_recv_def pair_tube_def pair_kernel_def Let_def)
next
  case (Suc n)
  then show ?case
    by (simp add: recv_call_def ref_os_def k_recv_def pair_tube_def pair_kernel_def EINTR_def)
qed

lemma ref_recv_empty_settles:
  "settles (recv_call ref_os pair_tube (sz::'w::len word)) n (vaddr, pair_kernel [] n)
     = Some ((- 1, EAGAIN), (vaddr, pair_kernel [] 0))"
proof (induction n)
  case 0
  then show ?case
    by (simp add: recv_call_def ref_os_def k_recv_def pair_tube_def pair_kernel_def
        EAGAIN_def EINTR_def)
next
  case (Suc n)
  then show ?case
    by (simp add: recv_call_def ref_os_def k_recv_def pair_tube_def pair_kernel_def EINTR_def)
qed

lemma ref_send_full_settles:
  "sum_list (map length q) + unat sz > 4096 \<Longrightarrow>
   settles (send_call ref_os pair_tube vaddr (sz::'w::len word)) n (pair_kernel q n)
     = Some ((- 1, EAGAIN), pair_kernel q 0)"
proof (induction n)
  case 0
  then show ?case
    by (simp add: send_call_def ref_os_def k_send_def pair_tube_def pair_kernel_def
        EAGAIN_def EINTR_def)
next
  case (Suc n)
  then show ?case
    by (simp add: send_call_def ref_os_def k_send_def pair_tube_def pair_kernel_def EINTR_def)
qed

lemma ref_os_seqpacket_pair:
  "seqpacket_pair (ref_os :: ('w::len word, kernel) os) 4 3 ref_inflight"
  unfolding seqpacket_pair_def
  by (auto simp: ref_os_def ref_inflight_def k_send_def k_recv_def Let_def EINTR_def
      split: if_splits list.splits)

subsection \<open>Negative raw results\<close>

text \<open>A negative raw result skips the remainder and the division and is returned as it is.\<close>

lemma write_neg:
  "BitTube_write os t vaddr (count * objSize) k = Some (sz, k') \<Longrightarrow> sz < 0 \<Longrightarrow>
   sendObjects os t vaddr count objSize k = Some (Returned sz, k')"
  by (simp add: sendObjects_def)

lemma read_neg:
  "BitTube_read os t vaddr (count * objSize) k = Some (sz, ev, k') \<Longrightarrow> sz < 0 \<Longrightarrow>
   recvObjects os t vaddr count objSize k = Some (Returned sz, ev, k')"
  by (simp add: recvObjects_def)

subsection \<open>Boundary integrity\<close>

text \<open>
  Claim C2, as the code has it. For a record size \<open>S\<close> that is positive as
  \<^verbatim>\<open>ssize_t\<close> (\<open>0 < sint objSize\<close>, that is \<open>0 < S \<le> SSIZE_MAX\<close>): when the raw
  transfer of \<open>sendObjects\<close> or \<open>recvObjects\<close> returns a byte count, the helper
  aborts exactly when the count is non-negative and no multiple of \<open>S\<close>; otherwise
  it returns, and what it returns for a non-negative count is the non-negative
  quotient.
\<close>

theorem batch_boundary_check:
  fixes objSize :: "'w::len word"
  assumes "0 < sint objSize"
    and "BitTube_write os tube events (count * objSize) k = Some (sz, k')"
    and "BitTube_read os2 tube2 events2 (count2 * objSize) k2 = Some (sz2, ev2, k2')"
  shows "sendObjects os tube events count objSize k =
           Some (if 0 \<le> sz \<and> \<not> uint objSize dvd sz then Fatal
                 else Returned (if sz < 0 then sz else sz div uint objSize), k')
       \<and> recvObjects os2 tube2 events2 count2 objSize k2 =
           Some (if 0 \<le> sz2 \<and> \<not> uint objSize dvd sz2 then Fatal
                 else Returned (if sz2 < 0 then sz2 else sz2 div uint objSize), ev2, k2')
       \<and> (0 \<le> sz \<longrightarrow> 0 \<le> sz div uint objSize)
       \<and> (0 \<le> sz2 \<longrightarrow> 0 \<le> sz2 div uint objSize)"
proof -
  have pos: "0 < uint objSize" using assms(1) sint_pos_uint [OF assms(1)] by simp
  have s: "sendObjects os tube events count objSize k =
           Some (if 0 \<le> sz \<and> \<not> uint objSize dvd sz then Fatal
                 else Returned (if sz < 0 then sz else sz div uint objSize), k')"
    unfolding sendObjects_def using assms(2) batch_tail [OF assms(1), of sz] by simp
  have r: "recvObjects os2 tube2 events2 count2 objSize k2 =
           Some (if 0 \<le> sz2 \<and> \<not> uint objSize dvd sz2 then Fatal
                 else Returned (if sz2 < 0 then sz2 else sz2 div uint objSize), ev2, k2')"
    unfolding recvObjects_def using assms(3) batch_tail [OF assms(1), of sz2] by simp
  from pos have "0 \<le> sz \<longrightarrow> 0 \<le> sz div uint objSize" "0 \<le> sz2 \<longrightarrow> 0 \<le> sz2 div uint objSize"
    by (simp_all add: pos_imp_zdiv_nonneg_iff)
  with s r show ?thesis by blast
qed

theorem batch_boundary_check_witness:
  "sendObjects ref_os pair_tube [1, 2, 3, 4, 5, 6, 7, 8] 2 (4 :: 64 word) (pair_kernel [] 1)
     = Some (Returned 2, pair_kernel [[1, 2, 3, 4, 5, 6, 7, 8]] 0)
   \<and> recvObjects ref_os pair_tube [0, 0, 0, 0, 0, 0, 0, 0] 2 (4 :: 64 word)
        (pair_kernel [[1, 2, 3, 4, 5, 6]] 1)
     = Some (Fatal, [1, 2, 3, 4, 5, 6, 0, 0], pair_kernel [] 0)"
proof -
  have p: "0 < sint (4 :: 64 word)" by simp
  have w: "BitTube_write ref_os pair_tube [1, 2, 3, 4, 5, 6, 7, 8] (2 * (4 :: 64 word))
             (pair_kernel [] 1) = Some (8, pair_kernel [[1, 2, 3, 4, 5, 6, 7, 8]] 0)"
    using write_settles [OF ref_send_settles [of "2 * (4 :: 64 word)" "[1, 2, 3, 4, 5, 6, 7, 8]" "[]" 1]]
    by simp
  have r: "BitTube_read ref_os pair_tube [0, 0, 0, 0, 0, 0, 0, 0] (2 * (4 :: 64 word))
             (pair_kernel [[1, 2, 3, 4, 5, 6]] 1)
           = Some (6, [1, 2, 3, 4, 5, 6, 0, 0], pair_kernel [] 0)"
    using read_settles [OF ref_recv_settles [of "2 * (4 :: 64 word)" 1 "[0, 0, 0, 0, 0, 0, 0, 0]" "[1, 2, 3, 4, 5, 6]" "[]"]]
    by simp
  show ?thesis using batch_boundary_check [OF p w r] by simp
qed

text \<open>
  The bound on \<open>S\<close> is needed: the divisor is \<^verbatim>\<open>static_cast<ssize_t>(objSize)\<close>. For
  \<open>objSize = SIZE_MAX\<close> it is \<open>-1\<close>; a raw count of 5 bytes, no multiple of \<open>SIZE_MAX\<close>,
  passes the check and \<open>recvObjects\<close> returns the negative count \<open>-5\<close>.
\<close>

theorem batch_boundary_unsigned_size_counterexample:
  "BitTube_read ref_os pair_tube [0, 0, 0, 0, 0, 0, 0, 0] (1 * (- 1 :: 64 word))
       (pair_kernel [[1, 2, 3, 4, 5]] 0)
     = Some (5, [1, 2, 3, 4, 5, 0, 0, 0], pair_kernel [] 0)
   \<and> \<not> uint (- 1 :: 64 word) dvd 5
   \<and> recvObjects ref_os pair_tube [0, 0, 0, 0, 0, 0, 0, 0] 1 (- 1 :: 64 word)
       (pair_kernel [[1, 2, 3, 4, 5]] 0)
     = Some (Returned (- 5), [1, 2, 3, 4, 5, 0, 0, 0], pair_kernel [] 0)"
proof -
  have r: "BitTube_read ref_os pair_tube [0, 0, 0, 0, 0, 0, 0, 0] (1 * (- 1 :: 64 word))
       (pair_kernel [[1, 2, 3, 4, 5]] 0)
     = Some (5, [1, 2, 3, 4, 5, 0, 0, 0], pair_kernel [] 0)"
    using read_settles [OF ref_recv_settles [of "1 * (- 1 :: 64 word)" 0 "[0, 0, 0, 0, 0, 0, 0, 0]" "[1, 2, 3, 4, 5]" "[]"]]
    by (simp add: unsigned_minus_1_eq_mask mask_eq_exp_minus_1)
  have d: "\<not> uint (- 1 :: 64 word) dvd 5"
    by (simp add: unsigned_minus_1_eq_mask mask_eq_exp_minus_1 zdvd_not_zless)
  show ?thesis using r d by (simp add: recvObjects_def signed_modulo_int_def signed_divide_int_def)
qed

subsection \<open>Division by the record size\<close>

text \<open>
  Claim C9. With a record size other than 0 neither helper divides by zero,
  whatever the raw transfer returns. Neither helper tests the record size: with
  record size 0, a raw transfer that returns a non-negative count reaches
  \<^verbatim>\<open>size % 0\<close>.
\<close>

theorem batch_divisor_nonzero:
  fixes objSize :: "'w::len word"
  shows "(objSize \<noteq> 0 \<longrightarrow>
            sendObjects os tube events count objSize k \<noteq> Some (DivisionByZero, k1)
          \<and> recvObjects os2 tube2 events2 count2 objSize k2 \<noteq> Some (DivisionByZero, ev1, k3))
       \<and> (BitTube_write os3 tube3 events3 (count3 * 0) k4 = Some (sz, k5) \<and> 0 \<le> sz \<longrightarrow>
            sendObjects os3 tube3 events3 count3 (0::'w word) k4 = Some (DivisionByZero, k5))
       \<and> (BitTube_read os4 tube4 events4 (count4 * 0) k6 = Some (sz2, ev', k7) \<and> 0 \<le> sz2 \<longrightarrow>
            recvObjects os4 tube4 events4 count4 (0::'w word) k6 = Some (DivisionByZero, ev', k7))"
  by (auto simp: sendObjects_def recvObjects_def sint_zero_iff split: option.splits)

theorem batch_divisor_nonzero_witness:
  "sendObjects ref_os pair_tube [] 3 (0 :: 64 word) (pair_kernel [] 0)
     = Some (DivisionByZero, pair_kernel [[]] 0)
   \<and> recvObjects ref_os pair_tube [7] 3 (0 :: 64 word) (pair_kernel [[1, 2]] 0)
     = Some (DivisionByZero, [7], pair_kernel [] 0)
   \<and> sendObjects ref_os pair_tube [1, 2] 1 (2 :: 64 word) (pair_kernel [] 0)
     \<noteq> Some (DivisionByZero, pair_kernel [[1, 2]] 0)
   \<and> recvObjects ref_os pair_tube [0, 0] 1 (2 :: 64 word) (pair_kernel [[1, 2]] 0)
     \<noteq> Some (DivisionByZero, [1, 2], pair_kernel [] 0)"
proof -
  have w: "BitTube_write ref_os pair_tube [] (3 * (0 :: 64 word)) (pair_kernel [] 0)
             = Some (0, pair_kernel [[]] 0)"
    using write_settles [OF ref_send_settles [of "3 * (0 :: 64 word)" "[]" "[]" 0]] by simp
  have r: "BitTube_read ref_os pair_tube [7] (3 * (0 :: 64 word)) (pair_kernel [[1, 2]] 0)
             = Some (0, [7], pair_kernel [] 0)"
    using read_settles [OF ref_recv_settles [of "3 * (0 :: 64 word)" 0 "[7]" "[1, 2]" "[]"]] by simp
  have n: "(2 :: 64 word) \<noteq> 0" by simp
  show ?thesis
    using batch_divisor_nonzero [where objSize = "2 :: 64 word" and os = ref_os and tube = pair_tube
        and events = "[1, 2]" and count = 1 and k = "pair_kernel [] 0"
        and ?k1.0 = "pair_kernel [[1, 2]] 0"
        and ?os2.0 = ref_os and ?tube2.0 = pair_tube and ?events2.0 = "[0, 0]" and ?count2.0 = 1
        and ?k2.0 = "pair_kernel [[1, 2]] 0" and ?ev1.0 = "[1, 2]" and ?k3.0 = "pair_kernel [] 0"
        and ?os3.0 = ref_os and ?tube3.0 = pair_tube and ?events3.0 = "[]" and ?count3.0 = 3
        and ?k4.0 = "pair_kernel [] 0" and sz = 0 and ?k5.0 = "pair_kernel [[]] 0"
        and ?os4.0 = ref_os and ?tube4.0 = pair_tube and ?events4.0 = "[7]" and ?count4.0 = 3
        and ?k6.0 = "pair_kernel [[1, 2]] 0" and ?sz2.0 = 0 and ev' = "[7]"
        and ?k7.0 = "pair_kernel [] 0"] w r n
    by simp
qed

subsection \<open>Round trip\<close>

text \<open>
  The arithmetic of one batch: when the send settles with the full length and the
  receive settles with that length, both helpers pass the check and return the
  count.
\<close>

lemma one_batch_counts:
  fixes count objSize :: "'w::len word"
  assumes N: "0 < count" and S: "0 < objSize"
    and fits: "unat count * unat objSize < 2 ^ (LENGTH('w) - 1)"
    and len: "length records = unat count * unat objSize"
    and snd: "settles (send_call os tx records (count * objSize)) n k
                = Some ((int (length records), e1), k1)"
    and rcv: "settles (recv_call os rx (count * objSize)) m (buffer, k2)
                = Some ((int (length records), e2),
                        (records @ drop (length records) buffer, k3))"
  shows "sendObjects os tx records count objSize k = Some (Returned (uint count), k1)
       \<and> recvObjects os rx buffer count objSize k2
           = Some (Returned (uint count), records @ drop (length records) buffer, k3)"
proof -
  have Npos: "0 < unat count" using N by (simp add: word_less_nat_alt)
  have "unat objSize \<le> unat count * unat objSize" using Npos by simp
  from this fits have "unat objSize < 2 ^ (LENGTH('w) - 1)" by (rule le_less_trans)
  then have "int (unat objSize) < int (2 ^ (LENGTH('w) - 1))"
    by (simp only: of_nat_less_iff)
  then have "uint objSize < 2 ^ (LENGTH('w) - 1)"
    by (simp only: uint_nat of_nat_power of_nat_numeral)
  then have su: "sint objSize = uint objSize" by (rule uint_small_sint)
  have upos: "0 < uint objSize" using S by (simp add: word_less_def)
  with su have sp: "0 < sint objSize" by simp
  define sz where "sz = int (length records)"
  have bytes: "sz = uint count * uint objSize"
    unfolding sz_def by (simp only: len uint_nat of_nat_mult)
  have nn: "0 \<le> sz" "\<not> sz < 0" unfolding sz_def by simp_all
  have dv: "uint objSize dvd sz" unfolding bytes by simp
  have qd: "sz div uint objSize = uint count" unfolding bytes using upos by simp
  have t: "(if sz \<ge> 0 \<and> sint objSize = 0 then DivisionByZero
            else if sz \<ge> 0 \<and> sz smod sint objSize \<noteq> 0 then Fatal
            else Returned (if sz < 0 then sz else sz sdiv sint objSize))
           = Returned (uint count)"
    unfolding batch_tail [OF sp] using nn dv qd by simp
  have w: "BitTube_write os tx records (count * objSize) k = Some (sz, k1)"
    unfolding sz_def using write_settles [OF snd] by simp
  have r: "BitTube_read os rx buffer (count * objSize) k2
             = Some (sz, records @ drop (length records) buffer, k3)"
    unfolding sz_def using read_settles [OF rcv] by simp
  have s1: "sendObjects os tx records count objSize k = Some (Returned (uint count), k1)"
    by (simp only: sendObjects_def w option.case prod.case t)
  have s2: "recvObjects os rx buffer count objSize k2
           = Some (Returned (uint count), records @ drop (length records) buffer, k3)"
    by (simp only: recvObjects_def r option.case prod.case t)
  from s1 s2 show ?thesis by simp
qed

text \<open>
  Claim C1. Let \<open>tx\<close> and \<open>rx\<close> hold the two ends of a pair that keeps the contract,
  open and with nothing in flight. Let \<open>count\<close> and \<open>objSize\<close> be positive with
  \<open>count * objSize\<close> bytes in the range of \<^verbatim>\<open>ssize_t\<close>, and let \<open>records\<close> hold that many
  bytes. Let the send be within the buffer limits: it settles and is not refused.
  Then \<open>sendObjects\<close> returns \<open>count\<close> and leaves exactly the one message \<open>records\<close>
  in flight; and when the receive loop on the state the send left settles, one
  \<open>recvObjects\<close> with the same \<open>count\<close> and \<open>objSize\<close> returns \<open>count\<close>, the buffer
  starts with the bytes of \<open>records\<close> in their order, and nothing is left in
  flight. Neither helper takes the fatal path.
\<close>

theorem batch_roundtrip:
  fixes count objSize :: "'w::len word"
  assumes pair: "seqpacket_pair os (mSendFd tx) (mReceiveFd rx) inflight"
    and empty: "inflight k = Some []"
    and N: "0 < count" and S: "0 < objSize"
    and fits: "unat count * unat objSize < 2 ^ (LENGTH('w) - 1)"
    and len: "length records = unat count * unat objSize"
    and snd: "settles (send_call os tx records (count * objSize)) n k = Some ((len1, e1), k1)"
    and acc: "0 \<le> len1"
    and rcv: "settles (recv_call os rx (count * objSize)) m (buffer, k1)
                = Some ((len2, e2), (buffer', k2))"
  shows "sendObjects os tx records count objSize k = Some (Returned (uint count), k1)
       \<and> recvObjects os rx buffer count objSize k1 = Some (Returned (uint count), buffer', k2)
       \<and> buffer' = records @ drop (length records) buffer
       \<and> inflight k1 = Some [records]
       \<and> inflight k2 = Some []"
proof -
  have "(2::nat) ^ (LENGTH('w) - 1) \<le> 2 ^ LENGTH('w)"
    by (rule power_increasing) simp_all
  with fits have "unat count * unat objSize < 2 ^ LENGTH('w)" by (rule less_le_trans)
  then have bytes: "unat (count * objSize) = length records"
    by (simp only: len unat_mult_lem [THEN iffD1])
  from send_settles_inflight [OF pair empty snd] acc
  have l1: "len1 = uint (count * objSize)"
    and q1: "inflight k1 = Some [take (unat (count * objSize)) records]"
    by simp_all
  from l1 have l1': "len1 = int (length records)" by (simp only: uint_nat bytes)
  from q1 have q1': "inflight k1 = Some [records]" by (simp add: bytes)
  from recv_settles_inflight [OF pair q1' rcv]
  have l2: "len2 = int (length records)"
    and b2: "buffer' = records @ drop (length records) buffer"
    and q2: "inflight k2 = Some []"
    by (simp_all add: bytes)
  from one_batch_counts [OF N S fits len snd [unfolded l1'] rcv [unfolded l2 b2]] b2 q1' q2
  show ?thesis by simp
qed

theorem batch_roundtrip_witness:
  "BitTube_default (ref_os :: (64 word, kernel) os) boot = (pair_tube, pair_kernel [] 0)
   \<and> sendObjects ref_os pair_tube [1, 2, 3, 4, 5, 6] 3 (2 :: 64 word) (pair_kernel [] 1)
       = Some (Returned 3, pair_kernel [[1, 2, 3, 4, 5, 6]] 0)
   \<and> recvObjects ref_os pair_tube [0, 0, 0, 0, 0, 0, 0, 0] 3 (2 :: 64 word)
         (pair_kernel [[1, 2, 3, 4, 5, 6]] 0)
       = Some (Returned 3, [1, 2, 3, 4, 5, 6, 0, 0], pair_kernel [] 0)"
proof -
  have p: "seqpacket_pair (ref_os :: (64 word, kernel) os) (mSendFd pair_tube)
             (mReceiveFd pair_tube) ref_inflight"
    using ref_os_seqpacket_pair by (simp add: pair_tube_def)
  have e: "ref_inflight (pair_kernel [] 1) = Some []"
    by (simp add: ref_inflight_def pair_kernel_def)
  have a: "(0 :: 64 word) < 3" "(0 :: 64 word) < 2" by simp_all
  have b: "unat (3 :: 64 word) * unat (2 :: 64 word) < 2 ^ (LENGTH(64) - 1)" by simp
  have c: "length [1, 2, 3, 4, 5, 6 :: byte] = unat (3 :: 64 word) * unat (2 :: 64 word)" by simp
  have s: "settles (send_call ref_os pair_tube [1, 2, 3, 4, 5, 6] (3 * (2 :: 64 word))) 1
             (pair_kernel [] 1)
           = Some ((6, 0), pair_kernel [[1, 2, 3, 4, 5, 6]] 0)"
    using ref_send_settles [of "3 * (2 :: 64 word)" "[1, 2, 3, 4, 5, 6]" "[]" 1] by simp
  have n: "(0 :: int) \<le> 6" by simp
  have r: "settles (recv_call ref_os pair_tube (3 * (2 :: 64 word))) 0
             ([0, 0, 0, 0, 0, 0, 0, 0], pair_kernel [[1, 2, 3, 4, 5, 6]] 0)
           = Some ((6, 0), ([1, 2, 3, 4, 5, 6, 0, 0], pair_kernel [] 0))"
    using ref_recv_settles [of "3 * (2 :: 64 word)" 0 "[0, 0, 0, 0, 0, 0, 0, 0]" "[1, 2, 3, 4, 5, 6]" "[]"]
    by simp
  show ?thesis using batch_roundtrip [OF p e a b c s n r] default_boot by simp
qed

subsection \<open>Would-block and error codes\<close>

text \<open>
  Claim C3. When the receive finds no message (it settles with \<^verbatim>\<open>EAGAIN\<close> or
  \<^verbatim>\<open>EWOULDBLOCK\<close>), \<open>recvObjects\<close>, called with a record size other than 0, returns
  0. When the send finds the outbound buffer full (it settles with \<^verbatim>\<open>EAGAIN\<close> or
  \<^verbatim>\<open>EWOULDBLOCK\<close>), \<open>sendObjects\<close> returns the negative code \<open>- EAGAIN\<close>. Whenever
  the raw operation returns a negative code, the helper returns that code.
\<close>

theorem would_block_results:
  fixes objSize objSize2 objSize3 objSize4 :: "'w::len word"
  assumes rwb: "settles (recv_call os rx (count * objSize)) n (events, k)
                  = Some ((len, eno), (events', k'))"
      and r1: "len < 0" and r2: "eno = EAGAIN \<or> eno = EWOULDBLOCK" and r3: "objSize \<noteq> 0"
      and swb: "settles (send_call os2 tx records (count2 * objSize2)) m k2
                  = Some ((len2, eno2), k2')"
      and s1: "len2 < 0" and s2: "eno2 = EAGAIN \<or> eno2 = EWOULDBLOCK"
      and wn: "BitTube_write os3 t3 vaddr3 (count3 * objSize3) k3 = Some (sz3, k3')"
      and wn1: "sz3 < 0"
      and rn: "BitTube_read os4 t4 vaddr4 (count4 * objSize4) k4 = Some (sz4, ev4, k4')"
      and rn1: "sz4 < 0"
  shows "recvObjects os rx events count objSize k = Some (Returned 0, events', k')
       \<and> sendObjects os2 tx records count2 objSize2 k2 = Some (Returned (- EAGAIN), k2')
       \<and> - EAGAIN < 0
       \<and> sendObjects os3 t3 vaddr3 count3 objSize3 k3 = Some (Returned sz3, k3')
       \<and> recvObjects os4 t4 vaddr4 count4 objSize4 k4 = Some (Returned sz4, ev4, k4')"
proof -
  have r: "BitTube_read os rx events (count * objSize) k = Some (0, events', k')"
    using read_settles [OF rwb] r1 r2 by simp
  have d: "sint objSize \<noteq> 0" using r3 by (simp add: sint_zero_iff)
  have a: "recvObjects os rx events count objSize k = Some (Returned 0, events', k')"
    unfolding recvObjects_def using r d by simp
  have w: "BitTube_write os2 tx records (count2 * objSize2) k2 = Some (- EAGAIN, k2')"
    using write_settles [OF swb] s1 s2 by (auto simp: EAGAIN_def EWOULDBLOCK_def)
  have n: "- EAGAIN < 0" by (simp add: EAGAIN_def)
  have b: "sendObjects os2 tx records count2 objSize2 k2 = Some (Returned (- EAGAIN), k2')"
    using write_neg [OF w n] .
  show ?thesis using a b n write_neg [OF wn wn1] read_neg [OF rn rn1] by simp
qed

theorem would_block_results_witness:
  "recvObjects ref_os pair_tube [0, 0, 0, 0] 2 (2 :: 64 word) (pair_kernel [] 1)
     = Some (Returned 0, [0, 0, 0, 0], pair_kernel [] 0)
   \<and> sendObjects ref_os pair_tube [1, 2, 3, 4] 2 (2 :: 64 word)
       (pair_kernel [replicate 4094 0] 1)
     = Some (Returned (- EAGAIN), pair_kernel [replicate 4094 0] 0)
   \<and> recvObjects ref_os \<lparr>mSendFd = - 1, mReceiveFd = - 1\<rparr> [0, 0, 0, 0] 2 (2 :: 64 word)
       (pair_kernel [[1, 2, 3, 4]] 0)
     = Some (Returned (- EBADF), [0, 0, 0, 0], pair_kernel [[1, 2, 3, 4]] 0)"
proof -
  have rwb: "settles (recv_call ref_os pair_tube (2 * (2 :: 64 word))) 1
               ([0, 0, 0, 0], pair_kernel [] 1)
             = Some ((- 1, EAGAIN), ([0, 0, 0, 0], pair_kernel [] 0))"
    by (rule ref_recv_empty_settles)
  have swb: "settles (send_call ref_os pair_tube [1, 2, 3, 4] (2 * (2 :: 64 word))) 1
               (pair_kernel [replicate 4094 0] 1)
             = Some ((- 1, EAGAIN), pair_kernel [replicate 4094 0] 0)"
    by (rule ref_send_full_settles) simp
  have wn: "BitTube_write ref_os pair_tube [1, 2, 3, 4] (2 * (2 :: 64 word))
              (pair_kernel [replicate 4094 0] 1)
            = Some (- EAGAIN, pair_kernel [replicate 4094 0] 0)"
    using write_settles [OF swb] by (simp add: EAGAIN_def)
  have rn: "BitTube_read ref_os \<lparr>mSendFd = - 1, mReceiveFd = - 1\<rparr> [0, 0, 0, 0]
              (2 * (2 :: 64 word)) (pair_kernel [[1, 2, 3, 4]] 0)
            = Some (- EBADF, [0, 0, 0, 0], pair_kernel [[1, 2, 3, 4]] 0)"
    by (subst BitTube_read.simps)
       (simp add: ref_os_def k_recv_def pair_kernel_def EBADF_def EINTR_def EAGAIN_def
          EWOULDBLOCK_def)
  have neg: "(- 1 :: int) < 0" "(2 :: 64 word) \<noteq> 0" "- EAGAIN < 0" "- EBADF < 0"
    by (simp_all add: EAGAIN_def EBADF_def)
  show ?thesis
    using would_block_results [OF rwb neg(1) disjI1 [OF refl] neg(2) swb neg(1) disjI1 [OF refl]
                 wn neg(3) rn neg(4)]
    by simp
qed

subsection \<open>Serialising the receive end\<close>

text \<open>
  Claim C4. Without a valid receive descriptor \<open>writeToParcel\<close> returns
  \<^verbatim>\<open>-EINVAL\<close> and changes neither the channel, the parcel nor the kernel. With a
  valid one it calls \<^verbatim>\<open>writeDupFileDescriptor\<close> on the descriptor, returns its
  status, then closes the channel's descriptor and stores \<open>-1\<close>: \<open>initCheck\<close> on the
  channel is then \<open>-1\<close>, not \<^verbatim>\<open>NO_ERROR\<close>, and a \<open>BitTube_read\<close> asks the kernel for
  descriptor \<open>-1\<close>, which a kernel refuses with \<^verbatim>\<open>EBADF\<close>.
\<close>

theorem writeToParcel_transfers:
  fixes sz :: "'w::len word"
  shows "(mReceiveFd t < 0 \<longrightarrow>
            writeToParcel os writeDupFileDescriptor t reply k = (- EINVAL, t, reply, k))
       \<and> (0 \<le> mReceiveFd t2
            \<and> writeDupFileDescriptor2 (mReceiveFd t2) reply2 k2 = (result, reply2', k2') \<longrightarrow>
            writeToParcel os2 writeDupFileDescriptor2 t2 reply2 k2
              = (result, t2\<lparr>mReceiveFd := - 1\<rparr>, reply2', sys_close os2 (mReceiveFd t2) k2')
          \<and> initCheck (t2\<lparr>mReceiveFd := - 1\<rparr>) = - 1
          \<and> initCheck (t2\<lparr>mReceiveFd := - 1\<rparr>) \<noteq> NO_ERROR
          \<and> getFd (t2\<lparr>mReceiveFd := - 1\<rparr>) = - 1
          \<and> (sys_recv os3 (- 1) vaddr sz k3 = (((- 1, EBADF), vaddr), k3) \<longrightarrow>
               BitTube_read os3 (t2\<lparr>mReceiveFd := - 1\<rparr>) vaddr sz k3
                 = Some (- EBADF, vaddr, k3)))"
proof -
  have r: "BitTube_read os3 (t2\<lparr>mReceiveFd := - 1\<rparr>) vaddr sz k3 = Some (- EBADF, vaddr, k3)"
    if "sys_recv os3 (- 1) vaddr sz k3 = (((- 1, EBADF), vaddr), k3)"
    by (subst BitTube_read.simps)
       (simp add: that EBADF_def EINTR_def EAGAIN_def EWOULDBLOCK_def)
  show ?thesis
    using r by (simp add: writeToParcel_def initCheck_def NO_ERROR_def getFd_def)
qed

theorem writeToParcel_transfers_witness:
  "writeToParcel (ref_os :: (64 word, kernel) os) ref_writeDupFileDescriptor
       \<lparr>mSendFd = - 1, mReceiveFd = - EBADF\<rparr> [] (pair_kernel [] 0)
     = (- EINVAL, \<lparr>mSendFd = - 1, mReceiveFd = - EBADF\<rparr>, [], pair_kernel [] 0)
   \<and> writeToParcel (ref_os :: (64 word, kernel) os) ref_writeDupFileDescriptor
       pair_tube [] (pair_kernel [] 0)
     = (NO_ERROR, pair_tube\<lparr>mReceiveFd := - 1\<rparr>, [5],
        (pair_kernel [] 0)\<lparr>table := [(5, ReceiveEnd), (4, SendEnd)], next_fd := 6\<rparr>)
   \<and> initCheck (pair_tube\<lparr>mReceiveFd := - 1\<rparr>) = - 1
   \<and> BitTube_read (ref_os :: (64 word, kernel) os) (pair_tube\<lparr>mReceiveFd := - 1\<rparr>) [0, 0] 2
       (pair_kernel [[1, 2]] 0)
     = Some (- EBADF, [0, 0], pair_kernel [[1, 2]] 0)"
proof -
  have a: "mReceiveFd \<lparr>mSendFd = - 1, mReceiveFd = - EBADF\<rparr> < 0" by (simp add: EBADF_def)
  have b: "0 \<le> mReceiveFd pair_tube" by (simp add: pair_tube_def)
  have c: "ref_writeDupFileDescriptor (mReceiveFd pair_tube) [] (pair_kernel [] 0)
             = (NO_ERROR, [5], (pair_kernel [] 0)\<lparr>table := (5, ReceiveEnd) # table (pair_kernel [] 0),
                  next_fd := 6\<rparr>)"
    by (simp add: ref_writeDupFileDescriptor_def k_dup_def pair_kernel_def pair_tube_def)
  have d: "sys_recv (ref_os :: (64 word, kernel) os) (- 1) [0, 0] 2 (pair_kernel [[1, 2]] 0)
             = (((- 1, EBADF), [0, 0]), pair_kernel [[1, 2]] 0)"
    by (simp add: ref_os_def k_recv_def pair_kernel_def)
  have e: "sys_close (ref_os :: (64 word, kernel) os) (mReceiveFd pair_tube)
             ((pair_kernel [] 0)\<lparr>table := (5, ReceiveEnd) # table (pair_kernel [] 0), next_fd := 6\<rparr>)
           = (pair_kernel [] 0)\<lparr>table := [(5, ReceiveEnd), (4, SendEnd)], next_fd := 6\<rparr>"
    by (simp add: ref_os_def k_close_def pair_kernel_def pair_tube_def)
  show ?thesis
    using writeToParcel_transfers [where t = "\<lparr>mSendFd = - 1, mReceiveFd = - EBADF\<rparr>"
        and os = "ref_os :: (64 word, kernel) os"
        and writeDupFileDescriptor = ref_writeDupFileDescriptor and reply = "[]"
        and k = "pair_kernel [] 0" and ?t2.0 = pair_tube
        and ?writeDupFileDescriptor2.0 = ref_writeDupFileDescriptor and ?reply2.0 = "[]"
        and ?k2.0 = "pair_kernel [] 0" and result = NO_ERROR and ?reply2' = "[5]"
        and ?k2' = "(pair_kernel [] 0)\<lparr>table := (5, ReceiveEnd) # table (pair_kernel [] 0),
                  next_fd := 6\<rparr>"
        and ?os2.0 = "ref_os :: (64 word, kernel) os"
        and ?os3.0 = "ref_os :: (64 word, kernel) os" and vaddr = "[0, 0]" and sz = 2
        and ?k3.0 = "pair_kernel [[1, 2]] 0"] a b c d e
    by simp
qed

subsection \<open>Construction from a parcel\<close>

text \<open>
  Claim C5. The constructor duplicates the descriptor read from the parcel and
  fills only the receive side: the send descriptor is \<open>-1\<close>. When \<^verbatim>\<open>dup\<close> succeeds
  the receive descriptor is the duplicate and \<open>initCheck\<close> is \<^verbatim>\<open>NO_ERROR\<close>. When
  \<^verbatim>\<open>dup\<close> fails (negative result, errno set) the receive descriptor holds the
  negated errno, and \<open>initCheck\<close> returns it.
\<close>

theorem BitTube_Parcel_result:
  assumes "sys_dup os (readFileDescriptor data) k = ((fd, eno), k')"
  shows "BitTube_Parcel os readFileDescriptor data k
           = (\<lparr>mSendFd = - 1, mReceiveFd = (if fd < 0 then - eno else fd)\<rparr>, k')
       \<and> mSendFd (fst (BitTube_Parcel os readFileDescriptor data k)) = - 1
       \<and> (0 \<le> fd \<longrightarrow>
            mReceiveFd (fst (BitTube_Parcel os readFileDescriptor data k)) = fd
          \<and> initCheck (fst (BitTube_Parcel os readFileDescriptor data k)) = NO_ERROR)
       \<and> (fd < 0 \<and> 0 < eno \<longrightarrow>
            mReceiveFd (fst (BitTube_Parcel os readFileDescriptor data k)) = - eno
          \<and> initCheck (fst (BitTube_Parcel os readFileDescriptor data k)) = - eno
          \<and> initCheck (fst (BitTube_Parcel os readFileDescriptor data k)) \<noteq> NO_ERROR)"
  using assms by (simp add: BitTube_Parcel_def initCheck_def NO_ERROR_def)

theorem BitTube_Parcel_result_witness:
  "BitTube_Parcel (ref_os :: (64 word, kernel) os) (\<lambda>p. p) 7 (pair_kernel [] 0)
     = (\<lparr>mSendFd = - 1, mReceiveFd = - EBADF\<rparr>, pair_kernel [] 0)
   \<and> initCheck (fst (BitTube_Parcel (ref_os :: (64 word, kernel) os) (\<lambda>p. p) 7
        (pair_kernel [] 0))) = - EBADF
   \<and> initCheck (fst (BitTube_Parcel (ref_os :: (64 word, kernel) os) (\<lambda>p. p) 7
        (pair_kernel [] 0))) \<noteq> NO_ERROR
   \<and> mReceiveFd (fst (BitTube_Parcel (ref_os :: (64 word, kernel) os) (\<lambda>p. p) 3
        (pair_kernel [] 0))) = 5
   \<and> initCheck (fst (BitTube_Parcel (ref_os :: (64 word, kernel) os) (\<lambda>p. p) 3
        (pair_kernel [] 0))) = NO_ERROR"
proof -
  have a: "sys_dup (ref_os :: (64 word, kernel) os) ((\<lambda>p. p) 7) (pair_kernel [] 0)
             = ((- 1, EBADF), pair_kernel [] 0)"
    by (simp add: ref_os_def k_dup_def pair_kernel_def)
  have b: "sys_dup (ref_os :: (64 word, kernel) os) ((\<lambda>p. p) 3) (pair_kernel [] 0)
             = ((5, 0), (pair_kernel [] 0)\<lparr>table := (5, ReceiveEnd) # table (pair_kernel [] 0),
                  next_fd := 6\<rparr>)"
    by (simp add: ref_os_def k_dup_def pair_kernel_def)
  have c: "0 < EBADF" by (simp add: EBADF_def)
  show ?thesis
    using BitTube_Parcel_result [where readFileDescriptor = "\<lambda>p. p" and data = 7, OF a]
      BitTube_Parcel_result [where readFileDescriptor = "\<lambda>p. p" and data = 3, OF b] c
    by (simp add: initCheck_def NO_ERROR_def)
qed

subsection \<open>Validity and failed allocation\<close>

text \<open>
  Claim C6. \<open>initCheck\<close> returns \<^verbatim>\<open>NO_ERROR\<close> exactly when the receive descriptor is
  not negative. When \<^verbatim>\<open>socketpair\<close> fails (non-zero result, errno set), \<open>init\<close> and
  both constructors return normally, with the negated errno as the receive
  descriptor and \<open>-1\<close> as the send descriptor, and \<open>initCheck\<close> returns that negated
  errno.
\<close>

theorem initCheck_and_failed_init:
  fixes bufsize rcvbuf sndbuf :: "'w::len word"
  shows "(initCheck t = NO_ERROR \<longleftrightarrow> 0 \<le> mReceiveFd t)
       \<and> (sys_socketpair os k = ((ret, eno, sockets0, sockets1), k0) \<and> ret \<noteq> 0 \<and> 0 < eno \<longrightarrow>
            init os rcvbuf sndbuf t k = (t\<lparr>mReceiveFd := - eno\<rparr>, k0)
          \<and> BitTube_default os k = (\<lparr>mSendFd = - 1, mReceiveFd = - eno\<rparr>, k0)
          \<and> BitTube_bufsize os bufsize k = (\<lparr>mSendFd = - 1, mReceiveFd = - eno\<rparr>, k0)
          \<and> initCheck \<lparr>mSendFd = - 1, mReceiveFd = - eno\<rparr> = - eno
          \<and> initCheck \<lparr>mSendFd = - 1, mReceiveFd = - eno\<rparr> \<noteq> NO_ERROR)"
  by (auto simp: initCheck_def NO_ERROR_def init_def BitTube_default_def BitTube_bufsize_def)

theorem initCheck_and_failed_init_witness:
  "BitTube_default (ref_os :: (64 word, kernel) os) (boot\<lparr>next_fd := 1023\<rparr>)
     = (\<lparr>mSendFd = - 1, mReceiveFd = - EMFILE\<rparr>, boot\<lparr>next_fd := 1023\<rparr>)
   \<and> initCheck \<lparr>mSendFd = - 1, mReceiveFd = - EMFILE\<rparr> = - EMFILE
   \<and> initCheck \<lparr>mSendFd = - 1, mReceiveFd = - EMFILE\<rparr> \<noteq> NO_ERROR
   \<and> initCheck pair_tube = NO_ERROR"
proof -
  have a: "sys_socketpair (ref_os :: (64 word, kernel) os) (boot\<lparr>next_fd := 1023\<rparr>)
             = ((- 1, EMFILE, 0, 0), boot\<lparr>next_fd := 1023\<rparr>)"
    by (simp add: ref_os_def k_socketpair_def boot_def)
  have b: "(- 1 :: int) \<noteq> 0" "0 < EMFILE" by (simp_all add: EMFILE_def)
  have c: "0 \<le> mReceiveFd pair_tube" by (simp add: pair_tube_def)
  show ?thesis
    using initCheck_and_failed_init [where os = "ref_os :: (64 word, kernel) os" and k = "boot\<lparr>next_fd := 1023\<rparr>"
        and ret = "- 1" and eno = EMFILE and ?sockets0.0 = 0 and ?sockets1.0 = 0
        and ?k0.0 = "boot\<lparr>next_fd := 1023\<rparr>" and t = pair_tube] a b c
    by (simp add: NO_ERROR_def EMFILE_def)
qed

subsection \<open>What a receive tells its caller\<close>

text \<open>
  Claim C7, as the code has it. \<open>BitTube_read\<close> returns 0 when no message is pending
  (\<^verbatim>\<open>EAGAIN\<close> or \<^verbatim>\<open>EWOULDBLOCK\<close>), and it returns 0 when the peer is closed (\<^verbatim>\<open>recv\<close>
  returns 0): these two are the same to the caller. For any other error it
  returns the negated errno, a negative value, which differs from both.
\<close>

theorem read_outcomes:
  assumes "settles (recv_call os t sz) n (vaddr, k) = Some ((len, eno), (vaddr', k'))"
  shows "(len < 0 \<and> (eno = EAGAIN \<or> eno = EWOULDBLOCK) \<longrightarrow>
            BitTube_read os t vaddr sz k = Some (0, vaddr', k'))
       \<and> (len = 0 \<longrightarrow> BitTube_read os t vaddr sz k = Some (0, vaddr', k'))
       \<and> (len < 0 \<and> 0 < eno \<and> eno \<noteq> EAGAIN \<and> eno \<noteq> EWOULDBLOCK \<longrightarrow>
            BitTube_read os t vaddr sz k = Some (- eno, vaddr', k') \<and> - eno < 0)"
  using read_settles [OF assms] by auto

theorem read_outcomes_witness:
  "BitTube_read (ref_os :: (64 word, kernel) os) pair_tube [0, 0] 2 (pair_kernel [] 1)
     = Some (0, [0, 0], pair_kernel [] 0)
   \<and> BitTube_read (ref_os :: (64 word, kernel) os) pair_tube [0, 0] 2
       (k_close 4 (pair_kernel [] 0))
     = Some (0, [0, 0], k_close 4 (pair_kernel [] 0))
   \<and> BitTube_read (ref_os :: (64 word, kernel) os) \<lparr>mSendFd = - 1, mReceiveFd = 7\<rparr> [0, 0] 2
       (pair_kernel [] 0)
     = Some (- EBADF, [0, 0], pair_kernel [] 0)"
proof -
  have a: "settles (recv_call (ref_os :: (64 word, kernel) os) pair_tube 2) 1
             ([0, 0], pair_kernel [] 1) = Some ((- 1, EAGAIN), ([0, 0], pair_kernel [] 0))"
    by (rule ref_recv_empty_settles)
  have b: "settles (recv_call (ref_os :: (64 word, kernel) os) pair_tube 2) 0
             ([0, 0], k_close 4 (pair_kernel [] 0))
           = Some ((0, 0), ([0, 0], k_close 4 (pair_kernel [] 0)))"
    by (simp add: recv_call_def ref_os_def k_recv_def k_close_def pair_kernel_def pair_tube_def)
  have c: "settles (recv_call (ref_os :: (64 word, kernel) os)
             \<lparr>mSendFd = - 1, mReceiveFd = 7\<rparr> 2) 0 ([0, 0], pair_kernel [] 0)
           = Some ((- 1, EBADF), ([0, 0], pair_kernel [] 0))"
    by (simp add: recv_call_def ref_os_def k_recv_def pair_kernel_def EBADF_def EINTR_def)
  have d: "0 < EBADF" "EBADF \<noteq> EAGAIN" "EBADF \<noteq> EWOULDBLOCK"
    by (simp_all add: EBADF_def EAGAIN_def EWOULDBLOCK_def)
  show ?thesis
    using read_outcomes [OF a] read_outcomes [OF b] read_outcomes [OF c] d by simp
qed

text \<open>
  On the reference transport: with the send end open and with the send end closed,
  a receive on the empty queue returns 0 and leaves the buffer as it was.
\<close>

theorem read_would_block_peer_closed_counterexample:
  "sys_recv (ref_os :: (64 word, kernel) os) (mReceiveFd pair_tube) [0, 0] 2 (pair_kernel [] 0)
     = (((- 1, EAGAIN), [0, 0]), pair_kernel [] 0)
   \<and> BitTube_read (ref_os :: (64 word, kernel) os) pair_tube [0, 0] 2 (pair_kernel [] 0)
     = Some (0, [0, 0], pair_kernel [] 0)
   \<and> sys_recv (ref_os :: (64 word, kernel) os) (mReceiveFd pair_tube) [0, 0] 2
       (k_close 4 (pair_kernel [] 0))
     = (((0, 0), [0, 0]), k_close 4 (pair_kernel [] 0))
   \<and> BitTube_read (ref_os :: (64 word, kernel) os) pair_tube [0, 0] 2
       (k_close 4 (pair_kernel [] 0))
     = Some (0, [0, 0], k_close 4 (pair_kernel [] 0))"
proof -
  have a: "sys_recv (ref_os :: (64 word, kernel) os) (mReceiveFd pair_tube) [0, 0] 2
             (pair_kernel [] 0) = (((- 1, EAGAIN), [0, 0]), pair_kernel [] 0)"
    by (simp add: ref_os_def k_recv_def pair_kernel_def pair_tube_def)
  have b: "sys_recv (ref_os :: (64 word, kernel) os) (mReceiveFd pair_tube) [0, 0] 2
             (k_close 4 (pair_kernel [] 0)) = (((0, 0), [0, 0]), k_close 4 (pair_kernel [] 0))"
    by (simp add: ref_os_def k_recv_def k_close_def pair_kernel_def pair_tube_def)
  have c: "BitTube_read (ref_os :: (64 word, kernel) os) pair_tube [0, 0] 2 (pair_kernel [] 0)
             = Some (0, [0, 0], pair_kernel [] 0)"
    by (subst BitTube_read.simps) (simp add: a EAGAIN_def EINTR_def)
  have d: "BitTube_read (ref_os :: (64 word, kernel) os) pair_tube [0, 0] 2
             (k_close 4 (pair_kernel [] 0)) = Some (0, [0, 0], k_close 4 (pair_kernel [] 0))"
    by (subst BitTube_read.simps) (simp add: b EAGAIN_def EINTR_def EWOULDBLOCK_def)
  show ?thesis using a b c d by simp
qed

subsection \<open>A channel built from a parcel cannot send\<close>

text \<open>
  Claim C10. A channel built from a parcel has the send descriptor \<open>-1\<close>. A
  kernel refuses a send on \<open>-1\<close> with \<^verbatim>\<open>EBADF\<close> and leaves its state as it was; then
  \<open>BitTube_write\<close> returns \<open>- EBADF\<close> and \<open>sendObjects\<close> returns \<open>- EBADF\<close>, for every
  buffer, size, count and record size, and nothing is sent.
\<close>

theorem parcel_tube_cannot_send:
  fixes sz count objSize :: "'w::len word"
  assumes raw: "sys_send os (- 1) vaddr sz k = ((- 1, EBADF), k)"
      and batch: "sys_send os (- 1) events (count * objSize) k1 = ((- 1, EBADF), k1)"
  shows "mSendFd (fst (BitTube_Parcel os readFileDescriptor data k0)) = - 1
       \<and> BitTube_write os (fst (BitTube_Parcel os readFileDescriptor data k0)) vaddr sz k
           = Some (- EBADF, k)
       \<and> sendObjects os (fst (BitTube_Parcel os readFileDescriptor data k0)) events count
             objSize k1
           = Some (Returned (- EBADF), k1)
       \<and> - EBADF < 0"
proof -
  define t where "t = fst (BitTube_Parcel os readFileDescriptor data k0)"
  have fd: "mSendFd t = - 1"
    unfolding t_def by (simp add: BitTube_Parcel_def split: prod.splits)
  have n: "- EBADF < 0" by (simp add: EBADF_def)
  have w: "BitTube_write os t vaddr sz k = Some (- EBADF, k)"
    by (subst BitTube_write.simps) (simp add: fd raw EBADF_def EINTR_def)
  have w2: "BitTube_write os t events (count * objSize) k1 = Some (- EBADF, k1)"
    by (subst BitTube_write.simps) (simp add: fd batch EBADF_def EINTR_def)
  show ?thesis using fd w write_neg [OF w2 n] n unfolding t_def by simp
qed

theorem parcel_tube_cannot_send_witness:
  "mSendFd (fst (BitTube_Parcel (ref_os :: (64 word, kernel) os) (\<lambda>p. p) 3 (pair_kernel [] 0)))
     = - 1
   \<and> BitTube_write (ref_os :: (64 word, kernel) os)
        (fst (BitTube_Parcel (ref_os :: (64 word, kernel) os) (\<lambda>p. p) 3 (pair_kernel [] 0)))
        [1, 2] 2 (pair_kernel [] 0)
     = Some (- EBADF, pair_kernel [] 0)
   \<and> sendObjects (ref_os :: (64 word, kernel) os)
        (fst (BitTube_Parcel (ref_os :: (64 word, kernel) os) (\<lambda>p. p) 3 (pair_kernel [] 0)))
        [1, 2] 2 1 (pair_kernel [] 0)
     = Some (Returned (- EBADF), pair_kernel [] 0)"
proof -
  have a: "sys_send (ref_os :: (64 word, kernel) os) (- 1) [1, 2] 2 (pair_kernel [] 0)
             = ((- 1, EBADF), pair_kernel [] 0)"
    by (simp add: ref_os_def k_send_def pair_kernel_def)
  have b: "sys_send (ref_os :: (64 word, kernel) os) (- 1) [1, 2] (2 * 1) (pair_kernel [] 0)
             = ((- 1, EBADF), pair_kernel [] 0)"
    by (simp add: ref_os_def k_send_def pair_kernel_def)
  show ?thesis
    using parcel_tube_cannot_send [OF a b, of "\<lambda>p. p" 3 "pair_kernel [] 0"] by simp
qed

section \<open>Properties of the label tables\<close>
















end
